theory Spec2Isabelle
  imports Main
begin

section \<open>The gRPC service generator of cmd/protoc-gen-go-grpc/grpc.go\<close>

text \<open>
  The generator walks a resolved description tree (files, services, methods) and writes
  Go source through the calls \<^verbatim>\<open>g.P(...)\<close> and \<^verbatim>\<open>g.Annotate(...)\<close> of a generated file
  \<open>g\<close>. The sink is append-only, so every builder is modelled by the sequence of sink
  calls it makes, in the order it makes them, each call with its arguments. A builder
  that runs into the run-time panic of the slice \<^verbatim>\<open>s[:1]\<close> in \<open>unexport\<close> returns
  \<open>None\<close>: a panic ends the run of the plugin.

  The flag \<^verbatim>\<open>*migrationMode\<close>, a variable of the package that is declared outside this
  file, is the parameter \<open>migrationMode\<close> of the builders that read it. The parameter
  \<^verbatim>\<open>gen *protogen.Plugin\<close>, which every builder passes on and only \<^verbatim>\<open>generateFile\<close>
  uses (to open the generated file), is left out.
\<close>

subsection \<open>The description tree\<close>

text \<open>\<^verbatim>\<open>protogen.GoIdent\<close>: a Go identifier and the import path of its package.\<close>

record GoIdent =
  ident_GoName :: string
  ident_GoImportPath :: string

text \<open>\<^verbatim>\<open>protogen.Location\<close>: a place in a description file.\<close>

record Location =
  SourceFile :: string
  Path :: "int list"

text \<open>
  \<^verbatim>\<open>protogen.Method\<close>, with the values the generator reads from it:
  \<open>method_Name\<close> is \<^verbatim>\<open>method.Desc.Name()\<close>, the two streaming flags are
  \<^verbatim>\<open>method.Desc.IsStreamingClient()\<close> and \<^verbatim>\<open>method.Desc.IsStreamingServer()\<close>,
  \<open>method_Deprecated\<close> is \<^verbatim>\<open>method.Desc.Options().(*descriptorpb.MethodOptions).GetDeprecated()\<close>,
  \<open>method_Input\<close> and \<open>method_Output\<close> are \<^verbatim>\<open>method.Input.GoIdent\<close> and
  \<^verbatim>\<open>method.Output.GoIdent\<close>, \<open>method_Leading\<close> is \<^verbatim>\<open>method.Comments.Leading\<close>.
  The back reference \<^verbatim>\<open>method.Parent\<close> is the service that is passed along with the method.
\<close>

record Method =
  method_GoName :: string
  method_Name :: string
  method_IsStreamingClient :: bool
  method_IsStreamingServer :: bool
  method_Deprecated :: bool
  method_Input :: GoIdent
  method_Output :: GoIdent
  method_Leading :: string
  method_Location :: Location

text \<open>
  \<^verbatim>\<open>protogen.Service\<close>: \<open>service_FullName\<close> is \<^verbatim>\<open>service.Desc.FullName()\<close>,
  \<open>service_Deprecated\<close> the deprecation option of the service.
\<close>

record Service =
  service_GoName :: string
  service_FullName :: string
  service_Deprecated :: bool
  service_Location :: Location
  service_Methods :: "Method list"

text \<open>\<^verbatim>\<open>protogen.File\<close>: \<open>file_Path\<close> is \<^verbatim>\<open>file.Desc.Path()\<close>.\<close>

record File =
  file_Services :: "Service list"
  file_Path :: string
  file_GeneratedFilenamePrefix :: string
  file_GoImportPath :: string
  file_GoPackageName :: string

subsection \<open>Collaborators outside the repository\<close>

text \<open>
  The standard-library functions \<^verbatim>\<open>strconv.Quote\<close> and \<^verbatim>\<open>strings.ToLower\<close> are
  parameters of the model: every theorem holds for whatever they compute.
\<close>

record Lib =
  Quote :: "string \<Rightarrow> string"
  ToLower :: "string \<Rightarrow> string"

text \<open>
  The generated file \<open>g\<close>. Its method \<^verbatim>\<open>g.QualifiedGoIdent\<close>, which renders an identifier
  for use in the file, belongs to protogen and is a parameter as well: some function of
  the identifier (protogen keeps the package name it has given to an import path for the
  rest of the file). The function is that of one run: two runs, one in each mode, have a
  generated file each, and protogen may name the packages differently in the two. How
  \<^verbatim>\<open>g.P\<close> prints its arguments is protogen's business too, so a line is kept as the list
  of the arguments of the call.
\<close>

record GeneratedFile =
  QualifiedGoIdent :: "GoIdent \<Rightarrow> string"

text \<open>
  An argument of \<^verbatim>\<open>g.P\<close>: a string, a \<^verbatim>\<open>GoIdent\<close> (which \<^verbatim>\<open>P\<close> qualifies when it
  prints the line) or a \<^verbatim>\<open>protogen.Comments\<close> value.
\<close>

datatype arg = S string | I GoIdent | Cm string

text \<open>A call of the sink: \<^verbatim>\<open>g.P(v...)\<close> writes one line, \<^verbatim>\<open>g.Annotate(symbol, loc)\<close>
  records a location for a symbol.\<close>

datatype event = Line "arg list" | Annotation string Location

type_synonym emitted = "event list option"

definition P :: "arg list \<Rightarrow> emitted" where
  "P v = Some [Line v]"

definition Annotate :: "string \<Rightarrow> Location \<Rightarrow> emitted" where
  "Annotate symbol loc = Some [Annotation symbol loc]"

text \<open>Statements one after the other: the first panic ends the run.\<close>

fun seq :: "emitted list \<Rightarrow> emitted" where
  "seq [] = Some []"
| "seq (x # xs) =
     (case x of
        None \<Rightarrow> None
      | Some a \<Rightarrow> (case seq xs of None \<Rightarrow> None | Some b \<Rightarrow> Some (a @ b)))"

text \<open>\<^verbatim>\<open>if c { ... }\<close> and \<^verbatim>\<open>for _, x := range xs { ... }\<close>.\<close>

definition ifThen :: "bool \<Rightarrow> emitted \<Rightarrow> emitted" where
  "ifThen c body = (if c then body else Some [])"

definition forRange :: "'a list \<Rightarrow> ('a \<Rightarrow> emitted) \<Rightarrow> emitted" where
  "forRange xs body = seq (map body xs)"

text \<open>\<^verbatim>\<open>strings.Join\<close>.\<close>

fun Join :: "string list \<Rightarrow> string \<Rightarrow> string" where
  "Join [] sep = []"
| "Join [x] sep = x"
| "Join (x # y # zs) sep = x @ sep @ Join (y # zs) sep"

subsection \<open>Constants\<close>

definition contextPackage :: string where
  "contextPackage = ''context''"

definition grpcPackage :: string where
  "grpcPackage = ''google.golang.org/grpc''"

definition codesPackage :: string where
  "codesPackage = ''google.golang.org/grpc/codes''"

definition statusPackage :: string where
  "statusPackage = ''google.golang.org/grpc/status''"

text \<open>\<^verbatim>\<open>GoImportPath.Ident\<close>.\<close>

definition Ident :: "string \<Rightarrow> string \<Rightarrow> GoIdent" where
  "Ident p name = \<lparr>ident_GoName = name, ident_GoImportPath = p\<rparr>"

definition deprecationComment :: string where
  "deprecationComment = ''// Deprecated: Do not use.''"

subsection \<open>Naming\<close>

text \<open>
  \<^verbatim>\<open>func unexport(s string) string { return strings.ToLower(s[:1]) + s[1:] }\<close>
  The slice \<^verbatim>\<open>s[:1]\<close> panics on the empty string.
\<close>

definition unexport :: "Lib \<Rightarrow> string \<Rightarrow> string option" where
  "unexport lib s = (if s = [] then None else Some (ToLower lib (take 1 s) @ drop 1 s))"

subsection \<open>Signatures\<close>

definition clientSignature :: "GeneratedFile \<Rightarrow> Service \<Rightarrow> Method \<Rightarrow> string" where
  "clientSignature g service method =
     (let s = method_GoName method @ ''(ctx '' @ QualifiedGoIdent g (Ident contextPackage ''Context'');
          s = (if \<not> method_IsStreamingClient method
               then s @ '', in *'' @ QualifiedGoIdent g (method_Input method) else s);
          s = s @ '', opts ...'' @ QualifiedGoIdent g (Ident grpcPackage ''CallOption'') @ '') ('';
          s = (if \<not> method_IsStreamingClient method \<and> \<not> method_IsStreamingServer method
               then s @ ''*'' @ QualifiedGoIdent g (method_Output method)
               else s @ service_GoName service @ ''_'' @ method_GoName method @ ''Client'')
      in s @ '', error)'')"

definition methodSignature :: "GeneratedFile \<Rightarrow> Service \<Rightarrow> Method \<Rightarrow> string" where
  "methodSignature g service method =
     (let unary = \<not> method_IsStreamingClient method \<and> \<not> method_IsStreamingServer method;
          reqArgs = [];
          ret = ''error'';
          reqArgs = (if unary
                     then reqArgs @ [QualifiedGoIdent g (Ident contextPackage ''Context'')]
                     else reqArgs);
          ret = (if unary
                 then ''(*'' @ QualifiedGoIdent g (method_Output method) @ '', error)''
                 else ret);
          reqArgs = (if \<not> method_IsStreamingClient method
                     then reqArgs @ [''*'' @ QualifiedGoIdent g (method_Input method)]
                     else reqArgs);
          reqArgs = (if method_IsStreamingClient method \<or> method_IsStreamingServer method
                     then reqArgs @ [service_GoName service @ ''_'' @ method_GoName method @ ''Server'']
                     else reqArgs)
      in method_GoName method @ ''('' @ Join reqArgs '', '' @ '') '' @ ret)"

definition handlerSignature :: "GeneratedFile \<Rightarrow> Service \<Rightarrow> Method \<Rightarrow> string" where
  "handlerSignature g service method =
     (let unary = \<not> method_IsStreamingClient method \<and> \<not> method_IsStreamingServer method;
          reqArgs = [];
          ret = ''error'';
          reqArgs = (if unary
                     then reqArgs @ [QualifiedGoIdent g (Ident contextPackage ''Context'')]
                     else reqArgs);
          ret = (if unary
                 then ''(*'' @ QualifiedGoIdent g (method_Output method) @ '', error)''
                 else ret);
          reqArgs = (if \<not> method_IsStreamingClient method
                     then reqArgs @ [''*'' @ QualifiedGoIdent g (method_Input method)]
                     else reqArgs);
          reqArgs = (if method_IsStreamingClient method \<or> method_IsStreamingServer method
                     then reqArgs @ [service_GoName service @ ''_'' @ method_GoName method @ ''Server'']
                     else reqArgs)
      in method_GoName method @ '' func('' @ Join reqArgs '', '' @ '') '' @ ret)"

definition unaryHandlerSignature :: "GeneratedFile \<Rightarrow> string" where
  "unaryHandlerSignature g =
     ''(_ interface{}, ctx '' @ QualifiedGoIdent g (Ident contextPackage ''Context'') @
     '', dec func(interface{}) error, interceptor '' @
     QualifiedGoIdent g (Ident grpcPackage ''UnaryServerInterceptor'') @ '') (interface{}, error)''"

definition streamHandlerSignature :: "GeneratedFile \<Rightarrow> string" where
  "streamHandlerSignature g =
     ''(_ interface{}, stream '' @ QualifiedGoIdent g (Ident grpcPackage ''ServerStream'') @ '') error''"

subsection \<open>The client stub builder\<close>

text \<open>
  \<^verbatim>\<open>genClientMethod\<close>: the stream descriptor, the client method and, for a streaming
  method, the stream interface, the stream structure and its methods. The unary branch
  returns before the stream types.
\<close>

definition genClientMethod :: "Lib \<Rightarrow> GeneratedFile \<Rightarrow> Service \<Rightarrow> Method \<Rightarrow> emitted" where
  \<open>genClientMethod lib g service method =
     (let sname = ''/'' @ service_FullName service @ ''/'' @ method_Name method in
      seq [
        ifThen (method_Deprecated method) (P [S deprecationComment]),
        Option.bind (unexport lib (service_GoName service)) (\<lambda>u.
          let streamDescName = u @ method_GoName method @ ''StreamDesc'' in
          seq [
            P [S ''var '', S streamDescName, S '' = &'', I (Ident grpcPackage ''StreamDesc''), S ''{''],
            P [S ''StreamName: '', S (Quote lib (method_Name method)), S '',''],
            ifThen (method_IsStreamingServer method) (P [S ''ServerStreams: true,'']),
            ifThen (method_IsStreamingClient method) (P [S ''ClientStreams: true,'']),
            P [S ''}''],
            Option.bind (unexport lib (service_GoName service)) (\<lambda>c.
              P [S ''func (c *'', S c, S ''Client) '', S (clientSignature g service method), S ''{'']),
            (if \<not> method_IsStreamingServer method \<and> \<not> method_IsStreamingClient method then
               seq [
                 P [S ''out := new('', I (method_Output method), S '')''],
                 P [S ''err := c.cc.Invoke(ctx, "'', S sname, S ''", in, out, opts...)''],
                 P [S ''if err != nil { return nil, err }''],
                 P [S ''return out, nil''],
                 P [S ''}''],
                 P []]
             else
               Option.bind (unexport lib (service_GoName service)) (\<lambda>x.
                 let streamType = x @ method_GoName method @ ''Client'';
                     genSend = method_IsStreamingClient method;
                     genRecv = method_IsStreamingServer method;
                     genCloseAndRecv = \<not> method_IsStreamingServer method in
                 seq [
                   P [S ''stream, err := c.cc.NewStream(ctx, '', S streamDescName, S '', "'', S sname, S ''", opts...)''],
                   P [S ''if err != nil { return nil, err }''],
                   P [S ''x := &'', S streamType, S ''{stream}''],
                   ifThen (\<not> method_IsStreamingClient method) (seq [
                     P [S ''if err := x.ClientStream.SendMsg(in); err != nil { return nil, err }''],
                     P [S ''if err := x.ClientStream.CloseSend(); err != nil { return nil, err }'']]),
                   P [S ''return x, nil''],
                   P [S ''}''],
                   P [],
                   P [S ''type '', S (service_GoName service), S ''_'', S (method_GoName method), S ''Client interface {''],
                   ifThen genSend (P [S ''Send(*'', I (method_Input method), S '') error'']),
                   ifThen genRecv (P [S ''Recv() (*'', I (method_Output method), S '', error)'']),
                   ifThen genCloseAndRecv (P [S ''CloseAndRecv() (*'', I (method_Output method), S '', error)'']),
                   P [I (Ident grpcPackage ''ClientStream'')],
                   P [S ''}''],
                   P [],
                   P [S ''type '', S streamType, S '' struct {''],
                   P [I (Ident grpcPackage ''ClientStream'')],
                   P [S ''}''],
                   P [],
                   ifThen genSend (seq [
                     P [S ''func (x *'', S streamType, S '') Send(m *'', I (method_Input method), S '') error {''],
                     P [S ''return x.ClientStream.SendMsg(m)''],
                     P [S ''}''],
                     P []]),
                   ifThen genRecv (seq [
                     P [S ''func (x *'', S streamType, S '') Recv() (*'', I (method_Output method), S '', error) {''],
                     P [S ''m := new('', I (method_Output method), S '')''],
                     P [S ''if err := x.ClientStream.RecvMsg(m); err != nil { return nil, err }''],
                     P [S ''return m, nil''],
                     P [S ''}''],
                     P []]),
                   ifThen genCloseAndRecv (seq [
                     P [S ''func (x *'', S streamType, S '') CloseAndRecv() (*'', I (method_Output method), S '', error) {''],
                     P [S ''if err := x.ClientStream.CloseSend(); err != nil { return nil, err }''],
                     P [S ''m := new('', I (method_Output method), S '')''],
                     P [S ''if err := x.ClientStream.RecvMsg(m); err != nil { return nil, err }''],
                     P [S ''return m, nil''],
                     P [S ''}''],
                     P []])]))])])\<close>

text \<open>
  \<^verbatim>\<open>genClient\<close>: nothing in migration mode; otherwise the client interface, the client
  structure, its constructor and the method implementations.
\<close>

definition genClient :: "bool \<Rightarrow> Lib \<Rightarrow> GeneratedFile \<Rightarrow> File \<Rightarrow> Service \<Rightarrow> emitted" where
  "genClient migrationMode lib g file service =
     (if migrationMode then Some []
      else
        let clientName = service_GoName service @ ''Client'' in
        seq [
          P [S ''// '', S clientName, S '' is the client API for '', S (service_GoName service), S '' service.''],
          P [S ''//''],
          P [S ''// For semantics around ctx use and closing/ending streaming RPCs, please refer to https://pkg.go.dev/google.golang.org/grpc/?tab=doc#ClientConn.NewStream.''],
          ifThen (service_Deprecated service) (seq [
            P [S ''//''],
            P [S deprecationComment]]),
          Annotate clientName (service_Location service),
          P [S ''type '', S clientName, S '' interface {''],
          forRange (service_Methods service) (\<lambda>method. seq [
            Annotate (clientName @ ''.'' @ method_GoName method) (method_Location method),
            ifThen (method_Deprecated method) (P [S deprecationComment]),
            P [Cm (method_Leading method), S (clientSignature g service method)]]),
          P [S ''}''],
          P [],
          Option.bind (unexport lib clientName) (\<lambda>u. P [S ''type '', S u, S '' struct {'']),
          P [S ''cc '', I (Ident grpcPackage ''ClientConnInterface'')],
          P [S ''}''],
          P [],
          ifThen (service_Deprecated service) (P [S deprecationComment]),
          P [S ''func New'', S clientName, S '' (cc '', I (Ident grpcPackage ''ClientConnInterface''), S '') '', S clientName, S '' {''],
          Option.bind (unexport lib clientName) (\<lambda>u. P [S ''return &'', S u, S ''{cc}'']),
          P [S ''}''],
          P [],
          forRange (service_Methods service) (\<lambda>method. genClientMethod lib g service method)])"

subsection \<open>The server dispatch builder\<close>

text \<open>\<^verbatim>\<open>genHandlerBody\<close>: what the adapter does once the field is known to be set.\<close>

definition genHandlerBody :: "Lib \<Rightarrow> GeneratedFile \<Rightarrow> Service \<Rightarrow> Method \<Rightarrow> emitted" where
  "genHandlerBody lib g service method =
     (if \<not> method_IsStreamingClient method \<and> \<not> method_IsStreamingServer method then
        seq [
          P [S ''in := new('', I (method_Input method), S '')''],
          P [S ''if err := dec(in); err != nil { return nil, err }''],
          P [S ''if interceptor == nil { return s.'', S (method_GoName method), S ''(ctx, in) }''],
          P [S ''info := &'', I (Ident grpcPackage ''UnaryServerInfo''), S ''{''],
          P [S ''Server: s,''],
          P [S ''FullMethod: '', S (Quote lib (''/'' @ service_FullName service @ ''/'' @ method_GoName method)), S '',''],
          P [S ''}''],
          P [S ''handler := func(ctx '', I (Ident contextPackage ''Context''), S '', req interface{}) (interface{}, error) {''],
          P [S ''return s.'', S (method_GoName method), S ''(ctx, req.(*'', I (method_Input method), S ''))''],
          P [S ''}''],
          P [S ''return interceptor(ctx, in, info, handler)'']]
      else
        Option.bind (unexport lib (service_GoName service)) (\<lambda>u.
          let streamType = u @ method_GoName method @ ''Server'' in
          if \<not> method_IsStreamingClient method then
            seq [
              P [S ''m := new('', I (method_Input method), S '')''],
              P [S ''if err := stream.RecvMsg(m); err != nil { return err }''],
              P [S ''return s.'', S (method_GoName method), S ''(m, &'', S streamType, S ''{stream})'']]
          else
            seq [
              P [S ''return s.'', S (method_GoName method), S ''(&'', S streamType, S ''{stream})'']]))"

text \<open>\<^verbatim>\<open>genMethodHandler\<close>: the adapter of one method, from its header to its closing brace.\<close>

definition genMethodHandler :: "Lib \<Rightarrow> GeneratedFile \<Rightarrow> Service \<Rightarrow> Method \<Rightarrow> emitted" where
  \<open>genMethodHandler lib g service method =
     (let nilArg = '''';
          signature = streamHandlerSignature g;
          unary = \<not> method_IsStreamingClient method \<and> \<not> method_IsStreamingServer method;
          nilArg = (if unary then ''nil,'' else nilArg);
          signature = (if unary then unaryHandlerSignature g else signature) in
      seq [
        Option.bind (unexport lib (method_GoName method)) (\<lambda>u.
          P [S ''func (s *'', S (service_GoName service), S ''Service) '', S u, S signature, S '' {'']),
        P [S ''if s.'', S (method_GoName method), S '' == nil {''],
        P [S ''return '', S nilArg, I (Ident statusPackage ''Errorf''), S ''('',
           I (Ident codesPackage ''Unimplemented''), S '', "method '', S (method_GoName method),
           S '' not implemented")''],
        P [S ''}''],
        genHandlerBody lib g service method,
        P [S ''}'']])\<close>

text \<open>
  \<^verbatim>\<open>genServerStreamTypes\<close>: nothing in migration mode and nothing for a unary method;
  otherwise the server stream interface, the stream structure and its methods.
\<close>

definition genServerStreamTypes :: "bool \<Rightarrow> Lib \<Rightarrow> GeneratedFile \<Rightarrow> Service \<Rightarrow> Method \<Rightarrow> emitted" where
  "genServerStreamTypes migrationMode lib g service method =
     (if migrationMode then Some []
      else if \<not> method_IsStreamingClient method \<and> \<not> method_IsStreamingServer method then Some []
      else
        Option.bind (unexport lib (service_GoName service)) (\<lambda>u.
          let streamType = u @ method_GoName method @ ''Server'';
              genSend = method_IsStreamingServer method;
              genSendAndClose = \<not> method_IsStreamingServer method;
              genRecv = method_IsStreamingClient method in
          seq [
            P [S ''type '', S (service_GoName service), S ''_'', S (method_GoName method), S ''Server interface {''],
            ifThen genSend (P [S ''Send(*'', I (method_Output method), S '') error'']),
            ifThen genSendAndClose (P [S ''SendAndClose(*'', I (method_Output method), S '') error'']),
            ifThen genRecv (P [S ''Recv() (*'', I (method_Input method), S '', error)'']),
            P [I (Ident grpcPackage ''ServerStream'')],
            P [S ''}''],
            P [],
            P [S ''type '', S streamType, S '' struct {''],
            P [I (Ident grpcPackage ''ServerStream'')],
            P [S ''}''],
            P [],
            ifThen genSend (seq [
              P [S ''func (x *'', S streamType, S '') Send(m *'', I (method_Output method), S '') error {''],
              P [S ''return x.ServerStream.SendMsg(m)''],
              P [S ''}''],
              P []]),
            ifThen genSendAndClose (seq [
              P [S ''func (x *'', S streamType, S '') SendAndClose(m *'', I (method_Output method), S '') error {''],
              P [S ''return x.ServerStream.SendMsg(m)''],
              P [S ''}''],
              P []]),
            ifThen genRecv (seq [
              P [S ''func (x *'', S streamType, S '') Recv() (*'', I (method_Input method), S '', error) {''],
              P [S ''m := new('', I (method_Input method), S '')''],
              P [S ''if err := x.ServerStream.RecvMsg(m); err != nil { return nil, err }''],
              P [S ''return m, nil''],
              P [S ''}''],
              P []])]))"

subsection \<open>The registration builder and the service constructor\<close>

text \<open>
  \<^verbatim>\<open>genRegisterFunction\<close>: the service descriptor, with the unary methods under
  \<^verbatim>\<open>Methods\<close> and the streaming ones under \<^verbatim>\<open>Streams\<close>, and the call of the registrar.
\<close>

definition genRegisterFunction :: "Lib \<Rightarrow> GeneratedFile \<Rightarrow> File \<Rightarrow> Service \<Rightarrow> emitted" where
  \<open>genRegisterFunction lib g file service =
     seq [
       P [S ''// Register'', S (service_GoName service), S ''Service registers a service implementation with a gRPC server.''],
       ifThen (service_Deprecated service) (seq [
         P [S ''//''],
         P [S deprecationComment]]),
       P [S ''func Register'', S (service_GoName service), S ''Service(s '', I (Ident grpcPackage ''ServiceRegistrar''), S '', srv *'', S (service_GoName service), S ''Service) {''],
       P [S ''sd := '', I (Ident grpcPackage ''ServiceDesc''), S '' {''],
       P [S ''ServiceName: '', S (Quote lib (service_FullName service)), S '',''],
       P [S ''Methods: []'', I (Ident grpcPackage ''MethodDesc''), S ''{''],
       forRange (service_Methods service) (\<lambda>method.
         if method_IsStreamingClient method \<or> method_IsStreamingServer method then Some []
         else seq [
           P [S ''{''],
           P [S ''MethodName: '', S (Quote lib (method_Name method)), S '',''],
           Option.bind (unexport lib (method_GoName method)) (\<lambda>u. P [S ''Handler: srv.'', S u, S '','']),
           P [S ''},'']]),
       P [S ''},''],
       P [S ''Streams: []'', I (Ident grpcPackage ''StreamDesc''), S ''{''],
       forRange (service_Methods service) (\<lambda>method.
         if \<not> method_IsStreamingClient method \<and> \<not> method_IsStreamingServer method then Some []
         else seq [
           P [S ''{''],
           P [S ''StreamName: '', S (Quote lib (method_Name method)), S '',''],
           Option.bind (unexport lib (method_GoName method)) (\<lambda>u. P [S ''Handler: srv.'', S u, S '','']),
           ifThen (method_IsStreamingServer method) (P [S ''ServerStreams: true,'']),
           ifThen (method_IsStreamingClient method) (P [S ''ClientStreams: true,'']),
           P [S ''},'']]),
       P [S ''},''],
       P [S ''Metadata: "'', S (file_Path file), S ''",''],
       P [S ''}''],
       P [],
       P [S ''s.RegisterService(&sd, nil)''],
       P [S ''}''],
       P []]\<close>

text \<open>\<^verbatim>\<open>genServiceConstructor\<close>: builds the dispatch structure from any value, method by method.\<close>

definition genServiceConstructor :: "GeneratedFile \<Rightarrow> Service \<Rightarrow> emitted" where
  "genServiceConstructor g service =
     seq [
       P [S ''// New'', S (service_GoName service), S ''Service creates a new '', S (service_GoName service), S ''Service containing the''],
       P [S ''// implemented methods of the '', S (service_GoName service), S '' service in s.  Any unimplemented''],
       P [S ''// methods will result in the gRPC server returning an UNIMPLEMENTED status to the client.''],
       P [S ''// This includes situations where the method handler is misspelled or has the wrong''],
       P [S ''// signature.  For this reason, this function should be used with great care and''],
       P [S ''// is not recommended to be used by most users.''],
       P [S ''func New'', S (service_GoName service), S ''Service(s interface{}) *'', S (service_GoName service), S ''Service {''],
       P [S ''ns := &'', S (service_GoName service), S ''Service{}''],
       forRange (service_Methods service) (\<lambda>method. seq [
         P [S ''if h, ok := s.(interface {'', S (methodSignature g service method), S ''}); ok {''],
         P [S ''ns.'', S (method_GoName method), S '' = h.'', S (method_GoName method)],
         P [S ''}'']]),
       P [S ''return ns''],
       P [S ''}''],
       P []]"

text \<open>
  The first part of \<^verbatim>\<open>genService\<close> (its lines up to the loop over the method
  handlers): the dispatch structure with one function field for each method.
\<close>

definition genServiceStruct :: "GeneratedFile \<Rightarrow> Service \<Rightarrow> emitted" where
  "genServiceStruct g service =
     (let serviceType = service_GoName service @ ''Service'' in
      seq [
        P [S ''// '', S serviceType, S '' is the service API for '', S (service_GoName service), S '' service.''],
        P [S ''// Fields should be assigned to their respective handler implementations only before''],
        P [S ''// Register'', S serviceType, S '' is called.  Any unassigned fields will result in the''],
        P [S ''// handler for that method returning an Unimplemented error.''],
        ifThen (service_Deprecated service) (seq [
          P [S ''//''],
          P [S deprecationComment]]),
        Annotate serviceType (service_Location service),
        P [S ''type '', S serviceType, S '' struct {''],
        forRange (service_Methods service) (\<lambda>method. seq [
          ifThen (method_Deprecated method) (P [S deprecationComment]),
          Annotate (serviceType @ ''.'' @ method_GoName method) (method_Location method),
          P [Cm (method_Leading method), S (handlerSignature g service method)]]),
        P [S ''}''],
        P []])"

text \<open>
  \<^verbatim>\<open>genService\<close>: the dispatch structure, the adapters, the server stream types, the
  registration function and the constructor.
\<close>

definition genService :: "bool \<Rightarrow> Lib \<Rightarrow> GeneratedFile \<Rightarrow> File \<Rightarrow> Service \<Rightarrow> emitted" where
  "genService migrationMode lib g file service =
     seq [
       genServiceStruct g service,
       forRange (service_Methods service) (\<lambda>method. genMethodHandler lib g service method),
       forRange (service_Methods service) (\<lambda>method. genServerStreamTypes migrationMode lib g service method),
       genRegisterFunction lib g file service,
       genServiceConstructor g service]"

subsection \<open>The unstable service interface and the file\<close>

definition genUnstableServiceInterface :: "GeneratedFile \<Rightarrow> File \<Rightarrow> Service \<Rightarrow> emitted" where
  "genUnstableServiceInterface g file service =
     (let serviceType = service_GoName service @ ''Service'' in
      seq [
        P [S ''// Unstable'', S serviceType, S '' is the service API for '', S (service_GoName service), S '' service.''],
        P [S ''// New methods may be added to this interface if they are added to the service''],
        P [S ''// definition, which is not a backward-compatible change.  For this reason, ''],
        P [S ''// use of this type is not recommended.''],
        ifThen (service_Deprecated service) (seq [
          P [S ''//''],
          P [S deprecationComment]]),
        Annotate (''Unstable'' @ serviceType) (service_Location service),
        P [S ''type Unstable'', S serviceType, S '' interface {''],
        forRange (service_Methods service) (\<lambda>method. seq [
          Annotate (''Unstable'' @ serviceType @ ''.'' @ method_GoName method) (method_Location method),
          ifThen (method_Deprecated method) (P [S deprecationComment]),
          P [Cm (method_Leading method), S (methodSignature g service method)]]),
        P [S ''}''],
        P []])"

text \<open>\<^verbatim>\<open>generateFileContent\<close>: the version assertion, then the builders, service by service.\<close>

definition generateFileContent :: "bool \<Rightarrow> Lib \<Rightarrow> GeneratedFile \<Rightarrow> File \<Rightarrow> emitted" where
  "generateFileContent migrationMode lib g file =
     (if length (file_Services file) = 0 then Some []
      else
        seq [
          P [S ''// This is a compile-time assertion to ensure that this generated file''],
          P [S ''// is compatible with the grpc package it is being compiled against.''],
          P [S ''const _ = '', I (Ident grpcPackage ''SupportPackageIsVersion7'')],
          P [],
          forRange (file_Services file) (\<lambda>service. seq [
            genClient migrationMode lib g file service,
            genService migrationMode lib g file service,
            genUnstableServiceInterface g file service])])"

text \<open>
  \<^verbatim>\<open>generateFile\<close>: no file (\<open>None\<close>) for a description without services; otherwise
  the name of the generated file and what is written to it.
\<close>

definition generateFile :: "bool \<Rightarrow> Lib \<Rightarrow> GeneratedFile \<Rightarrow> File \<Rightarrow> (string \<times> emitted) option" where
  "generateFile migrationMode lib g file =
     (if length (file_Services file) = 0 then None
      else
        let filename = file_GeneratedFilenamePrefix file @ ''_grpc.pb.go'' in
        Some (filename, seq [
          P [S ''// Code generated by protoc-gen-go-grpc. DO NOT EDIT.''],
          P [],
          P [S ''package '', S (file_GoPackageName file)],
          P [],
          generateFileContent migrationMode lib g file]))"

subsection \<open>Preconditions and example inputs\<close>

text \<open>
  protogen derives the Go name of a service or a method from its name in the description,
  and a name in a description is not empty. These are the inputs the generator is run on.
\<close>

definition service_names_ok :: "Service \<Rightarrow> bool" where
  "service_names_ok service =
     (service_GoName service \<noteq> [] \<and> list_all (\<lambda>method. method_GoName method \<noteq> []) (service_Methods service))"

definition file_names_ok :: "File \<Rightarrow> bool" where
  "file_names_ok file = list_all service_names_ok (file_Services file)"

text \<open>
  Stand-ins for the collaborators, for the examples only: on printable ASCII text without
  quotes and backslashes \<^verbatim>\<open>strconv.Quote\<close> wraps its argument in double quotes, and
  \<^verbatim>\<open>strings.ToLower\<close> maps the letters A to Z to a to z.
\<close>

definition ex_lib :: Lib where
  \<open>ex_lib = \<lparr>
     Quote = (\<lambda>s. ''"'' @ s @ ''"''),
     ToLower = map (\<lambda>c. case map_of (zip ''ABCDEFGHIJKLMNOPQRSTUVWXYZ'' ''abcdefghijklmnopqrstuvwxyz'') c of
                           Some d \<Rightarrow> d | None \<Rightarrow> c)\<rparr>\<close>

definition ex_g :: GeneratedFile where
  "ex_g = \<lparr>QualifiedGoIdent = (\<lambda>ident.
     if ident_GoImportPath ident = contextPackage then ''context.'' @ ident_GoName ident
     else if ident_GoImportPath ident = grpcPackage then ''grpc.'' @ ident_GoName ident
     else if ident_GoImportPath ident = codesPackage then ''codes.'' @ ident_GoName ident
     else if ident_GoImportPath ident = statusPackage then ''status.'' @ ident_GoName ident
     else ident_GoName ident)\<rparr>"

definition ex_loc :: Location where
  "ex_loc = \<lparr>SourceFile = ''route_guide.proto'', Path = []\<rparr>"

definition ex_method :: "string \<Rightarrow> string \<Rightarrow> bool \<Rightarrow> bool \<Rightarrow> string \<Rightarrow> string \<Rightarrow> Method" where
  "ex_method goName name clientStreaming serverStreaming input output = \<lparr>
     method_GoName = goName,
     method_Name = name,
     method_IsStreamingClient = clientStreaming,
     method_IsStreamingServer = serverStreaming,
     method_Deprecated = False,
     method_Input = Ident ''example.com/pb'' input,
     method_Output = Ident ''example.com/pb'' output,
     method_Leading = [],
     method_Location = ex_loc\<rparr>"

text \<open>The four shapes, as in the route guide example of gRPC.\<close>

definition ex_GetFeature :: Method where
  "ex_GetFeature = ex_method ''GetFeature'' ''GetFeature'' False False ''Point'' ''Feature''"

definition ex_ListFeatures :: Method where
  "ex_ListFeatures = ex_method ''ListFeatures'' ''ListFeatures'' False True ''Rectangle'' ''Feature''"

definition ex_RecordRoute :: Method where
  "ex_RecordRoute = ex_method ''RecordRoute'' ''RecordRoute'' True False ''Point'' ''RouteSummary''"

definition ex_RouteChat :: Method where
  "ex_RouteChat = ex_method ''RouteChat'' ''RouteChat'' True True ''RouteNote'' ''RouteNote''"

definition ex_service :: Service where
  "ex_service = \<lparr>
     service_GoName = ''RouteGuide'',
     service_FullName = ''routeguide.RouteGuide'',
     service_Deprecated = False,
     service_Location = ex_loc,
     service_Methods = [ex_GetFeature, ex_ListFeatures, ex_RecordRoute, ex_RouteChat]\<rparr>"

definition ex_file :: File where
  "ex_file = \<lparr>
     file_Services = [ex_service],
     file_Path = ''route_guide.proto'',
     file_GeneratedFilenamePrefix = ''route_guide'',
     file_GoImportPath = ''example.com/pb'',
     file_GoPackageName = ''routeguide''\<rparr>"

text \<open>
  A unary method declared as \<^verbatim>\<open>rpc say_hello(HelloRequest) returns (HelloReply)\<close>: protogen
  gives it the Go name \<^verbatim>\<open>SayHello\<close>, and its name in the description stays
  \<^verbatim>\<open>say_hello\<close>.
\<close>

definition ex_say_hello :: Method where
  "ex_say_hello = ex_method ''SayHello'' ''say_hello'' False False ''HelloRequest'' ''HelloReply''"

definition ex_greeter :: Service where
  "ex_greeter = \<lparr>
     service_GoName = ''Greeter'',
     service_FullName = ''helloworld.Greeter'',
     service_Deprecated = False,
     service_Location = ex_loc,
     service_Methods = [ex_say_hello]\<rparr>"

definition ex_greeter_file :: File where
  "ex_greeter_file = \<lparr>
     file_Services = [ex_greeter],
     file_Path = ''helloworld.proto'',
     file_GeneratedFilenamePrefix = ''helloworld'',
     file_GoImportPath = ''example.com/pb'',
     file_GoPackageName = ''helloworld''\<rparr>"

subsection \<open>The identifiers a run qualifies, and the names protogen gives them\<close>
















text \<open>
  \<^verbatim>\<open>g.QualifiedGoIdent\<close> of protogen (outside the repository), as far as the names go. An
  identifier of the file's own import path is not qualified. An import path that has a
  package name keeps it. A new import path gets the package name derived from its last
  element, or, when that name is taken, the first of \<^verbatim>\<open>name1\<close>, \<^verbatim>\<open>name2\<close>, ... that is
  free. What is derived from the last element (\<open>packageBase\<close>) and how a number is
  appended (\<open>numbered\<close>) are parameters. The table of a generated file lists the import
  paths with their package names, in the order they were given.
\<close>

record Protogen =
  packageBase :: "string \<Rightarrow> string"
  numbered :: "string \<Rightarrow> nat \<Rightarrow> string"

type_synonym packageNames = "(string \<times> string) list"

text \<open>
  The loop \<^verbatim>\<open>for i, orig := 1, packageName; used[packageName]; i++ { packageName = orig + Itoa(i) }\<close>,
  with fuel for the tests of its condition: \<open>None\<close> when the fuel runs out.
\<close>

fun unusedPackageName :: "Protogen \<Rightarrow> string list \<Rightarrow> string \<Rightarrow> string \<Rightarrow> nat \<Rightarrow> nat \<Rightarrow> string option" where
  "unusedPackageName pg used orig packageName i 0 = None"
| "unusedPackageName pg used orig packageName i (Suc fuel) =
     (if packageName \<in> set used
      then unusedPackageName pg used orig (numbered pg orig i) (Suc i) fuel
      else Some packageName)"

definition qualify :: "Protogen \<Rightarrow> string \<Rightarrow> packageNames \<Rightarrow> GoIdent \<Rightarrow> (string \<times> packageNames) option" where
  "qualify pg goImportPath names ident =
     (if ident_GoImportPath ident = goImportPath then Some (ident_GoName ident, names)
      else
        case map_of names (ident_GoImportPath ident) of
          Some packageName \<Rightarrow> Some (packageName @ ''.'' @ ident_GoName ident, names)
        | None \<Rightarrow>
            (case unusedPackageName pg (map snd names) (packageBase pg (ident_GoImportPath ident))
                    (packageBase pg (ident_GoImportPath ident)) 1 (Suc (length names)) of
               None \<Rightarrow> None
             | Some packageName \<Rightarrow>
                 Some (packageName @ ''.'' @ ident_GoName ident,
                       names @ [(ident_GoImportPath ident, packageName)])))"

text \<open>The table after a sequence of calls.\<close>

fun qualifyAll :: "Protogen \<Rightarrow> string \<Rightarrow> packageNames \<Rightarrow> GoIdent list \<Rightarrow> packageNames option" where
  "qualifyAll pg goImportPath names [] = Some names"
| "qualifyAll pg goImportPath names (ident # idents) =
     (case qualify pg goImportPath names ident of
        None \<Rightarrow> None
      | Some (_, names') \<Rightarrow> qualifyAll pg goImportPath names' idents)"











section \<open>Properties\<close>

subsection \<open>Auxiliary facts\<close>

lemmas gen_simps = P_def ifThen_def forRange_def Annotate_def unexport_def Let_def

lemmas ex_simps = ex_lib_def ex_g_def ex_loc_def ex_method_def ex_GetFeature_def ex_ListFeatures_def
  ex_RecordRoute_def ex_RouteChat_def ex_service_def ex_file_def ex_say_hello_def ex_greeter_def
  ex_greeter_file_def Ident_def contextPackage_def grpcPackage_def codesPackage_def statusPackage_def

lemma seq_map_Some:
  assumes "\<And>x. x \<in> set xs \<Longrightarrow> f x = Some (h x)"
  shows "seq (map f xs) = Some (concat (map h xs))"
  using assms by (induction xs) auto

lemma seq_map_filter:
  assumes "\<And>x. x \<in> set xs \<Longrightarrow> f x = (if skip x then Some [] else Some (h x))"
  shows "seq (map f xs) = Some (concat (map h (filter (\<lambda>x. \<not> skip x) xs)))"
  using assms by (induction xs) auto

lemma seq_map_ex:
  assumes "\<And>x. x \<in> set xs \<Longrightarrow> \<exists>y. f x = Some y"
  shows "\<exists>ys. seq (map f xs) = Some (concat ys) \<and> list_all2 (\<lambda>x y. f x = Some y) xs ys"
  using assms
proof (induction xs)
  case Nil
  then show ?case by simp
next
  case (Cons x xs)
  then obtain y where y: "f x = Some y" by auto
  from Cons obtain ys where ys: "seq (map f xs) = Some (concat ys)" "list_all2 (\<lambda>x y. f x = Some y) xs ys"
    by auto
  show ?case
    by (rule exI [of _ "y # ys"]) (simp add: y ys)
qed

subsection \<open>The dispatch adapter\<close>

text \<open>
  Claim C3. For a method of any shape, the adapter that \<open>genMethodHandler\<close> writes starts,
  right after its header, with the statement
  \<^verbatim>\<open>if s.<Method> == nil { return [nil,] status.Errorf(codes.Unimplemented, "method <Method> not implemented") }\<close>:
  with the field unset the adapter returns the Unimplemented error whose message names the
  method (by its Go name, the name of the field). A unary adapter returns \<^verbatim>\<open>nil\<close> as its
  first result, a streaming adapter has the error as its only result. The statements that
  call the handler (\<^verbatim>\<open>return s.<Method>(...)\<close>, also after \<^verbatim>\<open>if interceptor == nil\<close>, and the
  call of the interceptor) are not among these first statements: they all come after the
  guarded return, so with the field unset no handler is called.
\<close>

theorem handler_unimplemented_guard:
  assumes "method_GoName m \<noteq> []" and "service_GoName s \<noteq> []"
  shows \<open>\<exists>u body.
     unexport lib (method_GoName m) = Some u \<and>
     (let unary = \<not> method_IsStreamingClient m \<and> \<not> method_IsStreamingServer m;
          guard =
            [Line [S ''func (s *'', S (service_GoName s), S ''Service) '', S u,
                   S (if unary then unaryHandlerSignature g else streamHandlerSignature g), S '' {''],
             Line [S ''if s.'', S (method_GoName m), S '' == nil {''],
             Line [S ''return '', S (if unary then ''nil,'' else ''''),
                   I (Ident statusPackage ''Errorf''), S ''('', I (Ident codesPackage ''Unimplemented''),
                   S '', "method '', S (method_GoName m), S '' not implemented")''],
             Line [S ''}'']]
      in genMethodHandler lib g s m = Some (guard @ body) \<and>
         (\<forall>v. Line (S ''return s.'' # v) \<notin> set guard) \<and>
         (\<forall>v. Line (S ''if interceptor == nil { return s.'' # v) \<notin> set guard) \<and>
         Line [S ''return interceptor(ctx, in, info, handler)''] \<notin> set guard \<and>
         (\<exists>v. Line (S ''return s.'' # S (method_GoName m) # v) \<in> set body))\<close>
  using assms by (simp add: genMethodHandler_def genHandlerBody_def gen_simps)

theorem handler_unimplemented_guard_witness:
  \<open>\<exists>body. genMethodHandler ex_lib ex_g ex_service ex_RouteChat = Some (
       [Line [S ''func (s *'', S ''RouteGuide'', S ''Service) '', S ''routeChat'',
              S ''(_ interface{}, stream grpc.ServerStream) error'', S '' {''],
        Line [S ''if s.'', S ''RouteChat'', S '' == nil {''],
        Line [S ''return '', S '''', I (Ident statusPackage ''Errorf''), S ''('',
              I (Ident codesPackage ''Unimplemented''),
              S '', "method '', S ''RouteChat'', S '' not implemented")''],
        Line [S ''}'']] @ body) \<and>
     (\<exists>v. Line (S ''return s.'' # S ''RouteChat'' # v) \<in> set body)\<close>
  using handler_unimplemented_guard [of ex_RouteChat ex_service ex_lib ex_g]
  by (simp add: ex_simps unexport_def streamHandlerSignature_def Let_def)

text \<open>
  Claim C10. In the adapter of every method the nil check comes before any processing of
  the request. The adapter is its header, the guarded return (the statements at
  positions 1 to 3), then everything \<open>genHandlerBody\<close> writes, then the closing brace.
  The call of the decode callback (unary) and the receive from the stream (server
  streaming) are statements of that body and none of the first four; the adapter of a
  client-streaming or bidirectional method receives nothing itself, its body is the call
  of the handler. So with the field unset the adapter returns before it consumes input.
\<close>

theorem handler_guard_precedes_body:
  assumes "method_GoName m \<noteq> []" and "service_GoName s \<noteq> []"
  shows \<open>\<exists>u body out.
     unexport lib (service_GoName s) = Some u \<and>
     genHandlerBody lib g s m = Some body \<and>
     genMethodHandler lib g s m = Some out \<and>
     out ! 1 = Line [S ''if s.'', S (method_GoName m), S '' == nil {''] \<and>
     (\<exists>r. out ! 2 = Line (S ''return '' # r)) \<and>
     out ! 3 = Line [S ''}''] \<and>
     drop 4 out = body @ [Line [S ''}'']] \<and>
     Line [S ''if err := dec(in); err != nil { return nil, err }''] \<notin> set (take 4 out) \<and>
     Line [S ''if err := stream.RecvMsg(m); err != nil { return err }''] \<notin> set (take 4 out) \<and>
     (\<not> method_IsStreamingClient m \<and> \<not> method_IsStreamingServer m \<longrightarrow>
        body ! 1 = Line [S ''if err := dec(in); err != nil { return nil, err }'']) \<and>
     (\<not> method_IsStreamingClient m \<and> method_IsStreamingServer m \<longrightarrow>
        body ! 1 = Line [S ''if err := stream.RecvMsg(m); err != nil { return err }'']) \<and>
     (method_IsStreamingClient m \<longrightarrow>
        body = [Line [S ''return s.'', S (method_GoName m), S ''(&'',
                      S (u @ method_GoName m @ ''Server''), S ''{stream})'']])\<close>
  using assms by (simp add: genMethodHandler_def genHandlerBody_def gen_simps)

theorem handler_guard_precedes_body_witness:
  \<open>\<exists>body out.
     genHandlerBody ex_lib ex_g ex_service ex_GetFeature = Some body \<and>
     genMethodHandler ex_lib ex_g ex_service ex_GetFeature = Some out \<and>
     out ! 1 = Line [S ''if s.'', S ''GetFeature'', S '' == nil {''] \<and>
     drop 4 out = body @ [Line [S ''}'']] \<and>
     Line [S ''if err := dec(in); err != nil { return nil, err }''] \<notin> set (take 4 out) \<and>
     body ! 1 = Line [S ''if err := dec(in); err != nil { return nil, err }'']\<close>
  using handler_guard_precedes_body [of ex_GetFeature ex_service ex_lib ex_g]
  by (simp add: ex_simps) blast

subsection \<open>No builder panics on the names protogen provides\<close>

lemma seq_not_None: "(seq xs \<noteq> None) = (\<forall>x\<in>set xs. x \<noteq> None)"
  by (induction xs) (auto split: option.splits)

lemma seq_Some_ex: "(\<exists>out. seq xs = Some out) = (\<forall>x\<in>set xs. \<exists>y. x = Some y)"
  using seq_not_None [of xs] by auto

lemma seq_map_the:
  assumes "\<forall>x\<in>set xs. f x \<noteq> None"
  shows "seq (map f xs) = Some (concat (map (\<lambda>x. the (f x)) xs))"
  using assms by (induction xs) auto

lemma seq_map_empty:
  assumes "\<And>x. x \<in> set xs \<Longrightarrow> f x = Some []"
  shows "seq (map f xs) = Some []"
  using assms by (induction xs) auto

lemma forRange_returns:
  assumes "\<And>x. x \<in> set xs \<Longrightarrow> \<exists>y. f x = Some y"
  shows "\<exists>out. forRange xs f = Some out"
  using assms by (simp del: seq.simps add: forRange_def seq_Some_ex)

lemma genClientMethod_returns:
  assumes "service_GoName s \<noteq> []"
  shows "\<exists>out. genClientMethod lib g s m = Some out"
  using assms by (simp add: genClientMethod_def gen_simps)

lemma genClient_returns:
  assumes "service_GoName s \<noteq> []"
  shows "\<exists>out. genClient mm lib g file s = Some out"
  using assms genClientMethod_returns [of s lib g]
  by (simp del: seq.simps add: genClient_def seq_Some_ex gen_simps)

lemma genMethodHandler_returns:
  assumes "service_GoName s \<noteq> []" and "method_GoName m \<noteq> []"
  shows "\<exists>out. genMethodHandler lib g s m = Some out"
  using assms by (simp add: genMethodHandler_def genHandlerBody_def gen_simps)

lemma genServerStreamTypes_returns:
  assumes "service_GoName s \<noteq> []"
  shows "\<exists>out. genServerStreamTypes mm lib g s m = Some out"
  using assms by (simp add: genServerStreamTypes_def gen_simps)

lemma genServiceStruct_returns: "\<exists>out. genServiceStruct g s = Some out"
  by (simp del: seq.simps add: genServiceStruct_def seq_Some_ex gen_simps)

lemma genServiceConstructor_returns: "\<exists>out. genServiceConstructor g s = Some out"
  by (simp del: seq.simps add: genServiceConstructor_def seq_Some_ex gen_simps)

lemma genUnstableServiceInterface_returns: "\<exists>out. genUnstableServiceInterface g file s = Some out"
  by (simp del: seq.simps add: genUnstableServiceInterface_def seq_Some_ex gen_simps)

lemma genRegisterFunction_returns:
  assumes "list_all (\<lambda>method. method_GoName method \<noteq> []) (service_Methods s)"
  shows "\<exists>out. genRegisterFunction lib g file s = Some out"
  using assms
  by (auto simp del: seq.simps simp add: genRegisterFunction_def seq_Some_ex gen_simps list_all_iff)

lemma genService_returns:
  assumes "service_names_ok s"
  shows "\<exists>out. genService mm lib g file s = Some out"
  using assms genServiceStruct_returns [of g s] genServiceConstructor_returns [of g s]
    genRegisterFunction_returns [of s lib g "file"] genMethodHandler_returns [of s _ lib g]
    genServerStreamTypes_returns [of s mm lib g]
  by (simp del: seq.simps add: genService_def seq_Some_ex forRange_def service_names_ok_def list_all_iff)

lemma generateFileContent_returns:
  assumes "file_names_ok file"
  shows "\<exists>out. generateFileContent mm lib g file = Some out"
  using assms genService_returns [of _ mm lib g "file"] genClient_returns [of _ mm lib g "file"]
    genUnstableServiceInterface_returns [of g "file"]
  by (simp del: seq.simps add: generateFileContent_def seq_Some_ex forRange_def P_def file_names_ok_def
      list_all_iff service_names_ok_def)

text \<open>
  Claim C8. \<open>unexport\<close> is defined on the non-empty strings only: on the empty string the
  slice \<^verbatim>\<open>s[:1]\<close> panics (\<open>None\<close>); on a non-empty string the result is
  \<^verbatim>\<open>strings.ToLower\<close> of the first byte followed by the rest of the string, unchanged.
  The call sites pass the Go name of a service (also with \<^verbatim>\<open>Client\<close> appended) or of
  a method: when these names are not empty, no call panics and the generator returns its
  output, in either mode.
\<close>

theorem unexport_nonempty_only:
  "unexport lib [] = None \<and>
   (\<forall>s. s \<noteq> [] \<longrightarrow> unexport lib s = Some (ToLower lib [hd s] @ tl s)) \<and>
   (file_names_ok file \<longrightarrow> (\<exists>out. generateFileContent migrationMode lib g file = Some out))"
proof (intro conjI allI impI)
  show "unexport lib [] = None"
    by (simp add: unexport_def)
next
  fix s :: string
  assume "s \<noteq> []"
  then obtain c cs where "s = c # cs"
    by (cases s) auto
  then show "unexport lib s = Some (ToLower lib [hd s] @ tl s)"
    by (simp add: unexport_def)
next
  assume "file_names_ok file"
  then show "\<exists>out. generateFileContent migrationMode lib g file = Some out"
    by (rule generateFileContent_returns)
qed

theorem unexport_nonempty_only_witness:
  "unexport ex_lib ''RouteGuide'' = Some ''routeGuide'' \<and>
   file_names_ok ex_file \<and>
   (\<exists>out. generateFileContent False ex_lib ex_g ex_file = Some out)"
proof -
  have ok: "file_names_ok ex_file"
    by (simp add: file_names_ok_def service_names_ok_def ex_file_def ex_service_def ex_GetFeature_def
        ex_ListFeatures_def ex_RecordRoute_def ex_RouteChat_def ex_method_def)
  note t = unexport_nonempty_only [of ex_lib ex_file False ex_g]
  from t have "unexport ex_lib ''RouteGuide'' = Some (ToLower ex_lib [hd ''RouteGuide''] @ tl ''RouteGuide'')"
    by simp
  then have "unexport ex_lib ''RouteGuide'' = Some ''routeGuide''"
    by (simp add: ex_lib_def)
  moreover from t ok have "\<exists>out. generateFileContent False ex_lib ex_g ex_file = Some out"
    by blast
  ultimately show ?thesis
    using ok by blast
qed

subsection \<open>The client stub\<close>

text \<open>
  Claim C9. In full mode \<open>genClient\<close> runs \<open>genClientMethod\<close> for every method of the
  service, and for every method, unary ones included, \<open>genClientMethod\<close> first writes
  (after the deprecation comment, if any) the variable
  \<^verbatim>\<open><service><Method>StreamDesc\<close>, with the service name unexported, and only then the
  client method. The descriptor has the line \<^verbatim>\<open>ServerStreams: true,\<close> exactly for a
  server-streaming method and \<^verbatim>\<open>ClientStreams: true,\<close> exactly for a client-streaming
  one, so neither for a unary method; the body of a unary client method is the call of
  \<^verbatim>\<open>Invoke\<close> with the method path, without the descriptor.
\<close>

theorem stream_desc_for_every_method:
  assumes "service_GoName s \<noteq> []"
  shows \<open>\<exists>u rest outs pre.
     unexport lib (service_GoName s) = Some u \<and>
     genClientMethod lib g s m = Some (
       (if method_Deprecated m then [Line [S deprecationComment]] else []) @
       [Line [S ''var '', S (u @ method_GoName m @ ''StreamDesc''), S '' = &'',
              I (Ident grpcPackage ''StreamDesc''), S ''{''],
        Line [S ''StreamName: '', S (Quote lib (method_Name m)), S '','']] @
       (if method_IsStreamingServer m then [Line [S ''ServerStreams: true,'']] else []) @
       (if method_IsStreamingClient m then [Line [S ''ClientStreams: true,'']] else []) @
       [Line [S ''}''],
        Line [S ''func (c *'', S u, S ''Client) '', S (clientSignature g s m), S ''{'']] @
       rest) \<and>
     (\<not> method_IsStreamingServer m \<and> \<not> method_IsStreamingClient m \<longrightarrow>
        rest = [Line [S ''out := new('', I (method_Output m), S '')''],
                Line [S ''err := c.cc.Invoke(ctx, "'',
                      S (''/'' @ service_FullName s @ ''/'' @ method_Name m),
                      S ''", in, out, opts...)''],
                Line [S ''if err != nil { return nil, err }''],
                Line [S ''return out, nil''],
                Line [S ''}''],
                Line []]) \<and>
     genClient False lib g file s = Some (pre @ concat outs) \<and>
     list_all2 (\<lambda>method out. genClientMethod lib g s method = Some out) (service_Methods s) outs\<close>
proof -
  obtain outs where outs: "seq (map (genClientMethod lib g s) (service_Methods s)) = Some (concat outs)"
    "list_all2 (\<lambda>method out. genClientMethod lib g s method = Some out) (service_Methods s) outs"
    using seq_map_ex [of "service_Methods s" "genClientMethod lib g s"] genClientMethod_returns [OF assms]
    by blast
  have client: "\<exists>pre. genClient False lib g file s = Some (pre @ concat outs)"
    using assms outs(1) by (simp add: genClient_def gen_simps seq_map_the)
  show ?thesis
    using assms client outs(2) by (simp add: genClientMethod_def gen_simps) blast
qed

theorem stream_desc_for_every_method_witness:
  \<open>\<exists>rest outs pre.
     genClientMethod ex_lib ex_g ex_service ex_GetFeature = Some (
       [Line [S ''var '', S ''routeGuideGetFeatureStreamDesc'', S '' = &'',
              I (Ident grpcPackage ''StreamDesc''), S ''{''],
        Line [S ''StreamName: '', S ''"GetFeature"'', S '',''],
        Line [S ''}''],
        Line [S ''func (c *'', S ''routeGuide'', S ''Client) '',
              S ''GetFeature(ctx context.Context, in *Point, opts ...grpc.CallOption) (*Feature, error)'',
              S ''{'']] @ rest) \<and>
     rest ! 1 = Line [S ''err := c.cc.Invoke(ctx, "'', S ''/routeguide.RouteGuide/GetFeature'',
                      S ''", in, out, opts...)''] \<and>
     genClient False ex_lib ex_g ex_file ex_service = Some (pre @ concat outs) \<and>
     list_all2 (\<lambda>method out. genClientMethod ex_lib ex_g ex_service method = Some out)
       (service_Methods ex_service) outs\<close>
proof -
  have name: "service_GoName ex_service \<noteq> []"
    by (simp add: ex_service_def)
  from stream_desc_for_every_method [OF name, of ex_lib ex_g ex_GetFeature ex_file]
  obtain u rest outs pre where
    u: "unexport ex_lib (service_GoName ex_service) = Some u"
    and m: "genClientMethod ex_lib ex_g ex_service ex_GetFeature = Some (
       (if method_Deprecated ex_GetFeature then [Line [S deprecationComment]] else []) @
       [Line [S ''var '', S (u @ method_GoName ex_GetFeature @ ''StreamDesc''), S '' = &'',
              I (Ident grpcPackage ''StreamDesc''), S ''{''],
        Line [S ''StreamName: '', S (Quote ex_lib (method_Name ex_GetFeature)), S '','']] @
       (if method_IsStreamingServer ex_GetFeature then [Line [S ''ServerStreams: true,'']] else []) @
       (if method_IsStreamingClient ex_GetFeature then [Line [S ''ClientStreams: true,'']] else []) @
       [Line [S ''}''],
        Line [S ''func (c *'', S u, S ''Client) '', S (clientSignature ex_g ex_service ex_GetFeature), S ''{'']] @
       rest)"
    and r: \<open>\<not> method_IsStreamingServer ex_GetFeature \<and> \<not> method_IsStreamingClient ex_GetFeature \<longrightarrow>
        rest = [Line [S ''out := new('', I (method_Output ex_GetFeature), S '')''],
                Line [S ''err := c.cc.Invoke(ctx, "'',
                      S (''/'' @ service_FullName ex_service @ ''/'' @ method_Name ex_GetFeature),
                      S ''", in, out, opts...)''],
                Line [S ''if err != nil { return nil, err }''],
                Line [S ''return out, nil''],
                Line [S ''}''],
                Line []]\<close>
    and c: "genClient False ex_lib ex_g ex_file ex_service = Some (pre @ concat outs)"
      "list_all2 (\<lambda>method out. genClientMethod ex_lib ex_g ex_service method = Some out)
         (service_Methods ex_service) outs"
    by blast
  from u have u': "u = ''routeGuide''"
    by (simp add: unexport_def ex_service_def ex_lib_def)
  from r have r': \<open>rest ! 1 = Line [S ''err := c.cc.Invoke(ctx, "'', S ''/routeguide.RouteGuide/GetFeature'',
                      S ''", in, out, opts...)'']\<close>
    by (simp add: ex_simps)
  from m u' have \<open>genClientMethod ex_lib ex_g ex_service ex_GetFeature = Some (
       [Line [S ''var '', S ''routeGuideGetFeatureStreamDesc'', S '' = &'',
              I (Ident grpcPackage ''StreamDesc''), S ''{''],
        Line [S ''StreamName: '', S ''"GetFeature"'', S '',''],
        Line [S ''}''],
        Line [S ''func (c *'', S ''routeGuide'', S ''Client) '',
              S ''GetFeature(ctx context.Context, in *Point, opts ...grpc.CallOption) (*Feature, error)'',
              S ''{'']] @ rest)\<close>
    by (simp add: ex_simps clientSignature_def)
  with r' c show ?thesis
    by blast
qed

text \<open>
  Claim C7. For a server-streaming method (client-streaming flag false), the client
  method that \<open>genClientMethod\<close> writes opens the stream with \<^verbatim>\<open>NewStream\<close>, wraps it in
  \<^verbatim>\<open>x\<close>, and then, before \<^verbatim>\<open>return x, nil\<close>, sends the request with \<^verbatim>\<open>SendMsg(in)\<close> and
  closes the send side with \<^verbatim>\<open>CloseSend()\<close>. Each of the two statements returns
  \<^verbatim>\<open>nil, err\<close> when its call fails, with \<^verbatim>\<open>err\<close> the error of the call: the wrapper is
  not returned.
\<close>

theorem server_streaming_client_sends_then_closes:
  assumes "service_GoName s \<noteq> []"
    and "\<not> method_IsStreamingClient m" and "method_IsStreamingServer m"
  shows \<open>\<exists>u post.
     unexport lib (service_GoName s) = Some u \<and>
     genClientMethod lib g s m = Some (
       (if method_Deprecated m then [Line [S deprecationComment]] else []) @
       [Line [S ''var '', S (u @ method_GoName m @ ''StreamDesc''), S '' = &'',
              I (Ident grpcPackage ''StreamDesc''), S ''{''],
        Line [S ''StreamName: '', S (Quote lib (method_Name m)), S '',''],
        Line [S ''ServerStreams: true,''],
        Line [S ''}''],
        Line [S ''func (c *'', S u, S ''Client) '', S (clientSignature g s m), S ''{''],
        Line [S ''stream, err := c.cc.NewStream(ctx, '', S (u @ method_GoName m @ ''StreamDesc''),
              S '', "'', S (''/'' @ service_FullName s @ ''/'' @ method_Name m), S ''", opts...)''],
        Line [S ''if err != nil { return nil, err }''],
        Line [S ''x := &'', S (u @ method_GoName m @ ''Client''), S ''{stream}''],
        Line [S ''if err := x.ClientStream.SendMsg(in); err != nil { return nil, err }''],
        Line [S ''if err := x.ClientStream.CloseSend(); err != nil { return nil, err }''],
        Line [S ''return x, nil''],
        Line [S ''}''],
        Line [],
        Line [S ''type '', S (service_GoName s), S ''_'', S (method_GoName m), S ''Client interface {'']] @
       post)\<close>
  using assms by (simp add: genClientMethod_def gen_simps)

theorem server_streaming_client_sends_then_closes_witness:
  \<open>\<exists>post.
     genClientMethod ex_lib ex_g ex_service ex_ListFeatures = Some (
       [Line [S ''var '', S ''routeGuideListFeaturesStreamDesc'', S '' = &'',
              I (Ident grpcPackage ''StreamDesc''), S ''{''],
        Line [S ''StreamName: '', S ''"ListFeatures"'', S '',''],
        Line [S ''ServerStreams: true,''],
        Line [S ''}''],
        Line [S ''func (c *'', S ''routeGuide'', S ''Client) '',
              S ''ListFeatures(ctx context.Context, in *Rectangle, opts ...grpc.CallOption) (RouteGuide_ListFeaturesClient, error)'',
              S ''{''],
        Line [S ''stream, err := c.cc.NewStream(ctx, '', S ''routeGuideListFeaturesStreamDesc'',
              S '', "'', S ''/routeguide.RouteGuide/ListFeatures'', S ''", opts...)''],
        Line [S ''if err != nil { return nil, err }''],
        Line [S ''x := &'', S ''routeGuideListFeaturesClient'', S ''{stream}''],
        Line [S ''if err := x.ClientStream.SendMsg(in); err != nil { return nil, err }''],
        Line [S ''if err := x.ClientStream.CloseSend(); err != nil { return nil, err }''],
        Line [S ''return x, nil''],
        Line [S ''}''],
        Line [],
        Line [S ''type '', S ''RouteGuide'', S ''_'', S ''ListFeatures'', S ''Client interface {'']] @
       post)\<close>
  using server_streaming_client_sends_then_closes [of ex_service ex_ListFeatures ex_lib ex_g]
  by (simp add: ex_simps unexport_def clientSignature_def)

text \<open>
  Claim C1. In full mode the methods of the stream wrapper types follow from the two
  streaming flags of the method. The client stream type (written by \<open>genClientMethod\<close>)
  and the server stream type (written by \<open>genServerStreamTypes\<close>) exist exactly for the
  methods with a streaming flag set: a unary method gets neither, and
  \<open>genServerStreamTypes\<close> writes nothing at all for it. For each method of a wrapper both
  its entry in the interface and its implementation are considered. On the client,
  \<^verbatim>\<open>Send\<close> is there exactly when the method is client-streaming, \<^verbatim>\<open>Recv\<close> exactly
  when it is server-streaming, and \<^verbatim>\<open>CloseAndRecv\<close> exactly when a wrapper exists and the
  method is not server-streaming. On the server, \<^verbatim>\<open>Send\<close> is there exactly when the
  method is server-streaming, \<^verbatim>\<open>SendAndClose\<close> exactly when a wrapper exists and the
  method is not server-streaming, and \<^verbatim>\<open>Recv\<close> exactly when it is client-streaming.
  So a client wrapper has exactly one of \<^verbatim>\<open>Recv\<close> and \<^verbatim>\<open>CloseAndRecv\<close>, and a server
  wrapper exactly one of \<^verbatim>\<open>Send\<close> and \<^verbatim>\<open>SendAndClose\<close>.
\<close>

theorem stream_wrapper_method_sets:
  assumes "service_GoName s \<noteq> []"
  shows \<open>\<exists>u c v.
     unexport lib (service_GoName s) = Some u \<and>
     genClientMethod lib g s m = Some c \<and>
     genServerStreamTypes False lib g s m = Some v \<and>
     (Line [S ''type '', S (service_GoName s), S ''_'', S (method_GoName m), S ''Client interface {''] \<in> set c
        \<longleftrightarrow> method_IsStreamingClient m \<or> method_IsStreamingServer m) \<and>
     (Line [S ''type '', S (u @ method_GoName m @ ''Client''), S '' struct {''] \<in> set c
        \<longleftrightarrow> method_IsStreamingClient m \<or> method_IsStreamingServer m) \<and>
     (Line [S ''Send(*'', I (method_Input m), S '') error''] \<in> set c
        \<longleftrightarrow> method_IsStreamingClient m) \<and>
     (Line [S ''func (x *'', S (u @ method_GoName m @ ''Client''), S '') Send(m *'',
            I (method_Input m), S '') error {''] \<in> set c
        \<longleftrightarrow> method_IsStreamingClient m) \<and>
     (Line [S ''Recv() (*'', I (method_Output m), S '', error)''] \<in> set c
        \<longleftrightarrow> method_IsStreamingServer m) \<and>
     (Line [S ''func (x *'', S (u @ method_GoName m @ ''Client''), S '') Recv() (*'',
            I (method_Output m), S '', error) {''] \<in> set c
        \<longleftrightarrow> method_IsStreamingServer m) \<and>
     (Line [S ''CloseAndRecv() (*'', I (method_Output m), S '', error)''] \<in> set c
        \<longleftrightarrow> (method_IsStreamingClient m \<or> method_IsStreamingServer m) \<and> \<not> method_IsStreamingServer m) \<and>
     (Line [S ''func (x *'', S (u @ method_GoName m @ ''Client''), S '') CloseAndRecv() (*'',
            I (method_Output m), S '', error) {''] \<in> set c
        \<longleftrightarrow> (method_IsStreamingClient m \<or> method_IsStreamingServer m) \<and> \<not> method_IsStreamingServer m) \<and>
     (method_IsStreamingClient m \<or> method_IsStreamingServer m \<longrightarrow>
        (Line [S ''func (x *'', S (u @ method_GoName m @ ''Client''), S '') Recv() (*'',
               I (method_Output m), S '', error) {''] \<in> set c)
        \<noteq> (Line [S ''func (x *'', S (u @ method_GoName m @ ''Client''), S '') CloseAndRecv() (*'',
               I (method_Output m), S '', error) {''] \<in> set c)) \<and>
     (v = [] \<longleftrightarrow> \<not> method_IsStreamingClient m \<and> \<not> method_IsStreamingServer m) \<and>
     (method_IsStreamingClient m \<or> method_IsStreamingServer m \<longrightarrow>
        (Line [S ''func (x *'', S (u @ method_GoName m @ ''Server''), S '') Send(m *'',
               I (method_Output m), S '') error {''] \<in> set v)
        \<noteq> (Line [S ''func (x *'', S (u @ method_GoName m @ ''Server''), S '') SendAndClose(m *'',
               I (method_Output m), S '') error {''] \<in> set v)) \<and>
     (Line [S ''type '', S (service_GoName s), S ''_'', S (method_GoName m), S ''Server interface {''] \<in> set v
        \<longleftrightarrow> method_IsStreamingClient m \<or> method_IsStreamingServer m) \<and>
     (Line [S ''type '', S (u @ method_GoName m @ ''Server''), S '' struct {''] \<in> set v
        \<longleftrightarrow> method_IsStreamingClient m \<or> method_IsStreamingServer m) \<and>
     (Line [S ''Send(*'', I (method_Output m), S '') error''] \<in> set v
        \<longleftrightarrow> method_IsStreamingServer m) \<and>
     (Line [S ''func (x *'', S (u @ method_GoName m @ ''Server''), S '') Send(m *'',
            I (method_Output m), S '') error {''] \<in> set v
        \<longleftrightarrow> method_IsStreamingServer m) \<and>
     (Line [S ''SendAndClose(*'', I (method_Output m), S '') error''] \<in> set v
        \<longleftrightarrow> (method_IsStreamingClient m \<or> method_IsStreamingServer m) \<and> \<not> method_IsStreamingServer m) \<and>
     (Line [S ''func (x *'', S (u @ method_GoName m @ ''Server''), S '') SendAndClose(m *'',
            I (method_Output m), S '') error {''] \<in> set v
        \<longleftrightarrow> (method_IsStreamingClient m \<or> method_IsStreamingServer m) \<and> \<not> method_IsStreamingServer m) \<and>
     (Line [S ''Recv() (*'', I (method_Input m), S '', error)''] \<in> set v
        \<longleftrightarrow> method_IsStreamingClient m) \<and>
     (Line [S ''func (x *'', S (u @ method_GoName m @ ''Server''), S '') Recv() (*'',
            I (method_Input m), S '', error) {''] \<in> set v
        \<longleftrightarrow> method_IsStreamingClient m)\<close>
  using assms
  by (cases "method_IsStreamingClient m"; cases "method_IsStreamingServer m"; cases "method_Deprecated m")
     (simp_all add: genClientMethod_def genServerStreamTypes_def gen_simps deprecationComment_def)

theorem stream_wrapper_method_sets_witness:
  \<open>\<exists>c v.
     genClientMethod ex_lib ex_g ex_service ex_RecordRoute = Some c \<and>
     genServerStreamTypes False ex_lib ex_g ex_service ex_RecordRoute = Some v \<and>
     Line [S ''type '', S ''routeGuideRecordRouteClient'', S '' struct {''] \<in> set c \<and>
     Line [S ''func (x *'', S ''routeGuideRecordRouteClient'', S '') Send(m *'',
           I (method_Input ex_RecordRoute), S '') error {''] \<in> set c \<and>
     Line [S ''func (x *'', S ''routeGuideRecordRouteClient'', S '') Recv() (*'',
           I (method_Output ex_RecordRoute), S '', error) {''] \<notin> set c \<and>
     Line [S ''func (x *'', S ''routeGuideRecordRouteClient'', S '') CloseAndRecv() (*'',
           I (method_Output ex_RecordRoute), S '', error) {''] \<in> set c \<and>
     Line [S ''type '', S ''routeGuideRecordRouteServer'', S '' struct {''] \<in> set v \<and>
     Line [S ''func (x *'', S ''routeGuideRecordRouteServer'', S '') Send(m *'',
           I (method_Output ex_RecordRoute), S '') error {''] \<notin> set v \<and>
     Line [S ''func (x *'', S ''routeGuideRecordRouteServer'', S '') SendAndClose(m *'',
           I (method_Output ex_RecordRoute), S '') error {''] \<in> set v \<and>
     Line [S ''func (x *'', S ''routeGuideRecordRouteServer'', S '') Recv() (*'',
           I (method_Input ex_RecordRoute), S '', error) {''] \<in> set v\<close>
proof -
  have name: "service_GoName ex_service \<noteq> []"
    by (simp add: ex_service_def)
  have u: "unexport ex_lib ''RouteGuide'' = Some ''routeGuide''"
    by (simp add: unexport_def ex_lib_def)
  have flags: "method_IsStreamingClient ex_RecordRoute" "\<not> method_IsStreamingServer ex_RecordRoute"
    "method_GoName ex_RecordRoute = ''RecordRoute''" "service_GoName ex_service = ''RouteGuide''"
    by (simp_all add: ex_RecordRoute_def ex_method_def ex_service_def)
  show ?thesis
    using stream_wrapper_method_sets [OF name, of ex_lib ex_g ex_RecordRoute]
    apply (simp add: u flags)
    apply (elim exE conjE)
    apply (intro exI conjI)
    apply assumption+
    done
qed

subsection \<open>Registration\<close>

text \<open>
  Claim C6. The registration function builds the service descriptor
  \<^item> with the full name of the service as \<^verbatim>\<open>ServiceName\<close>;
  \<^item> under \<^verbatim>\<open>Methods\<close>, one entry (the name of the method in the description, and the
    adapter \<^verbatim>\<open>srv.<unexported Go name>\<close>) for exactly the methods with both streaming
    flags false, in the order of declaration;
  \<^item> under \<^verbatim>\<open>Streams\<close>, one entry for exactly the methods with a streaming flag set, in
    the order of declaration, with \<^verbatim>\<open>ServerStreams: true\<close> exactly when the method is
    server-streaming and \<^verbatim>\<open>ClientStreams: true\<close> exactly when it is client-streaming (a
    field that is left out is false in Go);
  \<^item> with the path of the description file as \<^verbatim>\<open>Metadata\<close>;
  and hands it to the registrar with a nil implementation:
  \<^verbatim>\<open>s.RegisterService(&sd, nil)\<close>.
\<close>

theorem register_function_descriptor:
  assumes "list_all (\<lambda>method. method_GoName method \<noteq> []) (service_Methods s)"
  shows \<open>genRegisterFunction lib g file s = Some (
     [Line [S ''// Register'', S (service_GoName s),
            S ''Service registers a service implementation with a gRPC server.'']] @
     (if service_Deprecated s then [Line [S ''//''], Line [S deprecationComment]] else []) @
     [Line [S ''func Register'', S (service_GoName s), S ''Service(s '',
            I (Ident grpcPackage ''ServiceRegistrar''), S '', srv *'', S (service_GoName s), S ''Service) {''],
      Line [S ''sd := '', I (Ident grpcPackage ''ServiceDesc''), S '' {''],
      Line [S ''ServiceName: '', S (Quote lib (service_FullName s)), S '',''],
      Line [S ''Methods: []'', I (Ident grpcPackage ''MethodDesc''), S ''{'']] @
     concat (map
       (\<lambda>method.
          [Line [S ''{''],
           Line [S ''MethodName: '', S (Quote lib (method_Name method)), S '',''],
           Line [S ''Handler: srv.'',
                 S (ToLower lib (take 1 (method_GoName method)) @ drop 1 (method_GoName method)), S '',''],
           Line [S ''},'']])
       (filter (\<lambda>method. \<not> method_IsStreamingClient method \<and> \<not> method_IsStreamingServer method)
          (service_Methods s))) @
     [Line [S ''},''],
      Line [S ''Streams: []'', I (Ident grpcPackage ''StreamDesc''), S ''{'']] @
     concat (map
       (\<lambda>method.
          [Line [S ''{''],
           Line [S ''StreamName: '', S (Quote lib (method_Name method)), S '',''],
           Line [S ''Handler: srv.'',
                 S (ToLower lib (take 1 (method_GoName method)) @ drop 1 (method_GoName method)), S '','']] @
          (if method_IsStreamingServer method then [Line [S ''ServerStreams: true,'']] else []) @
          (if method_IsStreamingClient method then [Line [S ''ClientStreams: true,'']] else []) @
          [Line [S ''},'']])
       (filter (\<lambda>method. method_IsStreamingClient method \<or> method_IsStreamingServer method)
          (service_Methods s))) @
     [Line [S ''},''],
      Line [S ''Metadata: "'', S (file_Path file), S ''",''],
      Line [S ''}''],
      Line [],
      Line [S ''s.RegisterService(&sd, nil)''],
      Line [S ''}''],
      Line []])\<close>
proof -
  have names: "\<And>method. method \<in> set (service_Methods s) \<Longrightarrow> method_GoName method \<noteq> []"
    using assms by (simp add: list_all_iff)
  have methods: "seq (map (\<lambda>method.
         if method_IsStreamingClient method \<or> method_IsStreamingServer method then Some []
         else seq [
           P [S ''{''],
           P [S ''MethodName: '', S (Quote lib (method_Name method)), S '',''],
           Option.bind (unexport lib (method_GoName method)) (\<lambda>u. P [S ''Handler: srv.'', S u, S '','']),
           P [S ''},'']]) (service_Methods s)) =
     Some (concat (map (\<lambda>method.
          [Line [S ''{''],
           Line [S ''MethodName: '', S (Quote lib (method_Name method)), S '',''],
           Line [S ''Handler: srv.'',
                 S (ToLower lib (take 1 (method_GoName method)) @ drop 1 (method_GoName method)), S '',''],
           Line [S ''},'']])
       (filter (\<lambda>method. \<not> (method_IsStreamingClient method \<or> method_IsStreamingServer method))
          (service_Methods s))))"
    by (rule seq_map_filter) (simp add: names gen_simps)
  have streams: "seq (map (\<lambda>method.
         if \<not> method_IsStreamingClient method \<and> \<not> method_IsStreamingServer method then Some []
         else seq [
           P [S ''{''],
           P [S ''StreamName: '', S (Quote lib (method_Name method)), S '',''],
           Option.bind (unexport lib (method_GoName method)) (\<lambda>u. P [S ''Handler: srv.'', S u, S '','']),
           ifThen (method_IsStreamingServer method) (P [S ''ServerStreams: true,'']),
           ifThen (method_IsStreamingClient method) (P [S ''ClientStreams: true,'']),
           P [S ''},'']]) (service_Methods s)) =
     Some (concat (map (\<lambda>method.
          [Line [S ''{''],
           Line [S ''StreamName: '', S (Quote lib (method_Name method)), S '',''],
           Line [S ''Handler: srv.'',
                 S (ToLower lib (take 1 (method_GoName method)) @ drop 1 (method_GoName method)), S '','']] @
          (if method_IsStreamingServer method then [Line [S ''ServerStreams: true,'']] else []) @
          (if method_IsStreamingClient method then [Line [S ''ClientStreams: true,'']] else []) @
          [Line [S ''},'']])
       (filter (\<lambda>method. \<not> (\<not> method_IsStreamingClient method \<and> \<not> method_IsStreamingServer method))
          (service_Methods s))))"
    by (rule seq_map_filter) (simp add: names gen_simps)
  show ?thesis
    unfolding genRegisterFunction_def forRange_def methods streams
    by (simp add: P_def ifThen_def)
qed

theorem register_function_descriptor_witness:
  \<open>genRegisterFunction ex_lib ex_g ex_file ex_service = Some
     [Line [S ''// Register'', S ''RouteGuide'',
            S ''Service registers a service implementation with a gRPC server.''],
      Line [S ''func Register'', S ''RouteGuide'', S ''Service(s '',
            I (Ident grpcPackage ''ServiceRegistrar''), S '', srv *'', S ''RouteGuide'', S ''Service) {''],
      Line [S ''sd := '', I (Ident grpcPackage ''ServiceDesc''), S '' {''],
      Line [S ''ServiceName: '', S ''"routeguide.RouteGuide"'', S '',''],
      Line [S ''Methods: []'', I (Ident grpcPackage ''MethodDesc''), S ''{''],
      Line [S ''{''],
      Line [S ''MethodName: '', S ''"GetFeature"'', S '',''],
      Line [S ''Handler: srv.'', S ''getFeature'', S '',''],
      Line [S ''},''],
      Line [S ''},''],
      Line [S ''Streams: []'', I (Ident grpcPackage ''StreamDesc''), S ''{''],
      Line [S ''{''],
      Line [S ''StreamName: '', S ''"ListFeatures"'', S '',''],
      Line [S ''Handler: srv.'', S ''listFeatures'', S '',''],
      Line [S ''ServerStreams: true,''],
      Line [S ''},''],
      Line [S ''{''],
      Line [S ''StreamName: '', S ''"RecordRoute"'', S '',''],
      Line [S ''Handler: srv.'', S ''recordRoute'', S '',''],
      Line [S ''ClientStreams: true,''],
      Line [S ''},''],
      Line [S ''{''],
      Line [S ''StreamName: '', S ''"RouteChat"'', S '',''],
      Line [S ''Handler: srv.'', S ''routeChat'', S '',''],
      Line [S ''ServerStreams: true,''],
      Line [S ''ClientStreams: true,''],
      Line [S ''},''],
      Line [S ''},''],
      Line [S ''Metadata: "'', S ''route_guide.proto'', S ''",''],
      Line [S ''}''],
      Line [],
      Line [S ''s.RegisterService(&sd, nil)''],
      Line [S ''}''],
      Line []]\<close>
  using register_function_descriptor [of ex_service ex_lib ex_g ex_file]
  by (simp add: ex_simps)

subsection \<open>The builders of a service, in the order of the sink\<close>

lemma service_outputs:
  assumes "service_names_ok s"
  shows "\<exists>c a h w r k u.
     genClient False lib g file s = Some c \<and>
     genServiceStruct g s = Some a \<and>
     forRange (service_Methods s) (genMethodHandler lib g s) = Some h \<and>
     forRange (service_Methods s) (genServerStreamTypes False lib g s) = Some w \<and>
     genRegisterFunction lib g file s = Some r \<and>
     genServiceConstructor g s = Some k \<and>
     genUnstableServiceInterface g file s = Some u"
proof -
  from assms have name: "service_GoName s \<noteq> []"
    and names: "list_all (\<lambda>method. method_GoName method \<noteq> []) (service_Methods s)"
    by (simp_all add: service_names_ok_def)
  have "\<exists>h. forRange (service_Methods s) (genMethodHandler lib g s) = Some h"
    using names by (intro forRange_returns genMethodHandler_returns name) (simp add: list_all_iff)
  moreover have "\<exists>w. forRange (service_Methods s) (genServerStreamTypes False lib g s) = Some w"
    by (intro forRange_returns genServerStreamTypes_returns name)
  ultimately show ?thesis
    using genClient_returns [OF name, of False lib g "file"] genServiceStruct_returns [of g s]
      genRegisterFunction_returns [OF names, of lib g "file"] genServiceConstructor_returns [of g s]
      genUnstableServiceInterface_returns [of g "file" s]
    by blast
qed


lemma migration_stream_types: "forRange ms (genServerStreamTypes True lib g s) = Some []"
  unfolding forRange_def by (rule seq_map_empty) (simp add: genServerStreamTypes_def)

lemma file_content_parts:
  assumes "\<And>s. s \<in> set (file_Services file) \<Longrightarrow>
     seq [genClient mm lib g file s, genService mm lib g file s, genUnstableServiceInterface g file s]
       = Some (h s)"
  shows "generateFileContent mm lib g file = Some (
       (if file_Services file = [] then [] else
          [Line [S ''// This is a compile-time assertion to ensure that this generated file''],
           Line [S ''// is compatible with the grpc package it is being compiled against.''],
           Line [S ''const _ = '', I (Ident grpcPackage ''SupportPackageIsVersion7'')],
           Line []]) @
       concat (map h (file_Services file)))"
proof -
  have "seq (map (\<lambda>s. seq [genClient mm lib g file s, genService mm lib g file s,
        genUnstableServiceInterface g file s]) (file_Services file))
      = Some (concat (map h (file_Services file)))"
    using assms by (rule seq_map_Some)
  then show ?thesis
    by (simp add: generateFileContent_def forRange_def P_def)
qed

lemma ex_file_names_ok: "file_names_ok ex_file"
  by (simp add: file_names_ok_def service_names_ok_def ex_file_def ex_service_def ex_GetFeature_def
      ex_ListFeatures_def ex_RecordRoute_def ex_RouteChat_def ex_method_def)




subsection \<open>One function for the qualified names of a run\<close>

lemma qualify_extends:
  assumes "qualify pg p names ident = Some (name, names')"
  shows "\<exists>ext. names' = names @ ext"
  using assms by (auto simp: qualify_def split: if_splits option.splits)

lemma qualifyAll_extends:
  assumes "qualifyAll pg p names idents = Some final"
  shows "\<exists>ext. final = names @ ext"
  using assms
proof (induction idents arbitrary: names)
  case Nil
  then show ?case by simp
next
  case (Cons ident idents)
  then obtain name names' where q: "qualify pg p names ident = Some (name, names')"
    and rest: "qualifyAll pg p names' idents = Some final"
    by (auto split: option.splits)
  from qualify_extends [OF q] Cons.IH [OF rest] show ?case
    by auto
qed

lemma qualify_again:
  assumes "qualify pg p names ident = Some (name, names')"
  shows "qualify pg p (names' @ ext) ident = Some (name, names' @ ext)"
  using assms by (auto simp: qualify_def map_add_Some_iff split: if_splits option.splits)

text \<open>
  A name that a call of \<^verbatim>\<open>g.QualifiedGoIdent\<close> returned at some point of the run is the
  name the table at the end of the run gives.
\<close>

lemma qualifyAll_keeps:
  assumes "qualify pg p names ident = Some (name, names')"
    and "qualifyAll pg p names' idents = Some final"
  shows "qualify pg p final ident = Some (name, final)"
proof -
  from qualifyAll_extends [OF assms(2)] obtain ext where "final = names' @ ext" ..
  with qualify_again [OF assms(1), of ext] show ?thesis
    by simp
qed

subsection \<open>The identifiers among the arguments of the sink calls\<close>

























subsection \<open>Two generated files that agree on the identifiers of the server side\<close>












subsection \<open>The order of the builders\<close>

text \<open>
  Claim C5, as the code has it. For every service the builders write to the sink in this
  order: the client stub \<open>c\<close>, the dispatch structure \<open>a\<close>, the adapters \<open>h\<close>, the server
  stream types \<open>w\<close>, the registration function \<open>r\<close>, the constructor \<open>k\<close>, and last the
  unstable interface \<open>u\<close>. The registration function and the constructor are written by
  \<open>genService\<close> itself, so they come before the unstable interface, not after it. The
  services follow one another in the order of the file, after the version assertion.
\<close>

theorem builder_order:
  assumes "file_names_ok file"
  shows "\<exists>parts.
     list_all2 (\<lambda>s (c, a, h, w, r, k, u).
         genClient migrationMode lib g file s = Some c \<and>
         genServiceStruct g s = Some a \<and>
         forRange (service_Methods s) (genMethodHandler lib g s) = Some h \<and>
         forRange (service_Methods s) (genServerStreamTypes migrationMode lib g s) = Some w \<and>
         genRegisterFunction lib g file s = Some r \<and>
         genServiceConstructor g s = Some k \<and>
         genUnstableServiceInterface g file s = Some u)
       (file_Services file) parts \<and>
     generateFileContent migrationMode lib g file = Some (
       (if file_Services file = [] then [] else
          [Line [S ''// This is a compile-time assertion to ensure that this generated file''],
           Line [S ''// is compatible with the grpc package it is being compiled against.''],
           Line [S ''const _ = '', I (Ident grpcPackage ''SupportPackageIsVersion7'')],
           Line []]) @
       concat (map (\<lambda>(c, a, h, w, r, k, u). c @ a @ h @ w @ r @ k @ u) parts))"
proof -
  let ?Q = "\<lambda>s (c, a, h, w, r, k, u).
         genClient migrationMode lib g file s = Some c \<and>
         genServiceStruct g s = Some a \<and>
         forRange (service_Methods s) (genMethodHandler lib g s) = Some h \<and>
         forRange (service_Methods s) (genServerStreamTypes migrationMode lib g s) = Some w \<and>
         genRegisterFunction lib g file s = Some r \<and>
         genServiceConstructor g s = Some k \<and>
         genUnstableServiceInterface g file s = Some u"
  have each: "\<exists>p. ?Q s p" if "s \<in> set (file_Services file)" for s
  proof -
    from that assms have ok: "service_names_ok s"
      by (simp add: file_names_ok_def list_all_iff)
    show ?thesis
    proof (cases migrationMode)
      case False
      then show ?thesis
        using service_outputs [OF ok, of lib g "file"] by auto
    next
      case True
      then show ?thesis
        using service_outputs [OF ok, of lib g "file"] migration_stream_types [of "service_Methods s" lib g s]
        by (auto simp: genClient_def)
    qed
  qed
  define part where "part s = (SOME p. ?Q s p)" for s
  have part: "?Q s (part s)" if "s \<in> set (file_Services file)" for s
    unfolding part_def using each [OF that] by (rule someI_ex)
  have all: "list_all2 ?Q (file_Services file) (map part (file_Services file))"
    using part by (simp add: list_all2_map2 list.rel_refl_strong)
  have "seq [genClient migrationMode lib g file s, genService migrationMode lib g file s,
        genUnstableServiceInterface g file s]
      = Some ((\<lambda>(c, a, h, w, r, k, u). c @ a @ h @ w @ r @ k @ u) (part s))"
    if "s \<in> set (file_Services file)" for s
    using part [OF that] by (cases "part s") (simp add: genService_def)
  from file_content_parts [of "file" migrationMode lib g, OF this] all
  show ?thesis
    by (intro exI [of _ "map part (file_Services file)"]) (simp add: comp_def)
qed

theorem builder_order_witness:
  "\<exists>c a h w r k u.
     genClient False ex_lib ex_g ex_file ex_service = Some c \<and>
     genServiceStruct ex_g ex_service = Some a \<and>
     forRange (service_Methods ex_service) (genMethodHandler ex_lib ex_g ex_service) = Some h \<and>
     forRange (service_Methods ex_service) (genServerStreamTypes False ex_lib ex_g ex_service) = Some w \<and>
     genRegisterFunction ex_lib ex_g ex_file ex_service = Some r \<and>
     genServiceConstructor ex_g ex_service = Some k \<and>
     genUnstableServiceInterface ex_g ex_file ex_service = Some u \<and>
     generateFileContent False ex_lib ex_g ex_file = Some (
          [Line [S ''// This is a compile-time assertion to ensure that this generated file''],
           Line [S ''// is compatible with the grpc package it is being compiled against.''],
           Line [S ''const _ = '', I (Ident grpcPackage ''SupportPackageIsVersion7'')],
           Line []] @ c @ a @ h @ w @ r @ k @ u)"
proof -
  have services: "file_Services ex_file = [ex_service]"
    by (simp add: ex_file_def)
  from builder_order [OF ex_file_names_ok, of False ex_lib ex_g]
  show ?thesis
    unfolding services by (auto simp: list_all2_Cons1)
qed

lemmas builder_defs = genClient_def genClientMethod_def genService_def genServiceStruct_def
  genMethodHandler_def genHandlerBody_def genServerStreamTypes_def genRegisterFunction_def
  genServiceConstructor_def genUnstableServiceInterface_def

text \<open>
  The order claim C5 states (client stub, server dispatch, unstable interface,
  registration, constructor) is not the order of the sink: for the file with the service
  \<open>Greeter\<close>, what \<open>generateFileContent\<close> writes differs from the builders run in the
  claimed order.
\<close>

theorem builder_order_counterexample:
  "generateFileContent False ex_lib ex_g ex_greeter_file
   \<noteq> seq [P [S ''// This is a compile-time assertion to ensure that this generated file''],
        P [S ''// is compatible with the grpc package it is being compiled against.''],
        P [S ''const _ = '', I (Ident grpcPackage ''SupportPackageIsVersion7'')],
        P [],
        genClient False ex_lib ex_g ex_greeter_file ex_greeter,
        genServiceStruct ex_g ex_greeter,
        forRange (service_Methods ex_greeter) (genMethodHandler ex_lib ex_g ex_greeter),
        forRange (service_Methods ex_greeter) (genServerStreamTypes False ex_lib ex_g ex_greeter),
        genUnstableServiceInterface ex_g ex_greeter_file ex_greeter,
        genRegisterFunction ex_lib ex_g ex_greeter_file ex_greeter,
        genServiceConstructor ex_g ex_greeter]"
  by (simp add: generateFileContent_def builder_defs gen_simps ex_simps)

subsection \<open>The method path of the interceptor metadata\<close>

text \<open>
  For a unary method the adapter gives the interceptor the path built from the Go name
  of the method, while the client stub calls the path built from the name of the method
  in the description.
\<close>

lemma full_method_from_go_name:
  assumes "\<not> method_IsStreamingClient m" and "\<not> method_IsStreamingServer m"
    and "service_GoName s \<noteq> []"
  shows \<open>\<exists>body c.
     genHandlerBody lib g s m = Some body \<and>
     genClientMethod lib g s m = Some c \<and>
     Line [S ''FullMethod: '', S (Quote lib (''/'' @ service_FullName s @ ''/'' @ method_GoName m)), S '','']
       \<in> set body \<and>
     Line [S ''err := c.cc.Invoke(ctx, "'', S (''/'' @ service_FullName s @ ''/'' @ method_Name m),
           S ''", in, out, opts...)''] \<in> set c\<close>
  using assms by (simp add: genHandlerBody_def genClientMethod_def gen_simps)

text \<open>
  Claim C4 at the method \<^verbatim>\<open>say_hello\<close> of the service \<^verbatim>\<open>helloworld.Greeter\<close>, whose Go name
  is \<^verbatim>\<open>SayHello\<close>: the adapter sets \<^verbatim>\<open>FullMethod\<close> to \<^verbatim>\<open>/helloworld.Greeter/SayHello\<close>,
  the client stub invokes \<^verbatim>\<open>/helloworld.Greeter/say_hello\<close>, and the method is registered
  under the name \<^verbatim>\<open>say_hello\<close>.
\<close>

theorem full_method_at_say_hello:
  \<open>\<exists>body c r.
     genHandlerBody ex_lib ex_g ex_greeter ex_say_hello = Some body \<and>
     genClientMethod ex_lib ex_g ex_greeter ex_say_hello = Some c \<and>
     genRegisterFunction ex_lib ex_g ex_greeter_file ex_greeter = Some r \<and>
     body ! 5 = Line [S ''FullMethod: '', S ''"/helloworld.Greeter/SayHello"'', S '',''] \<and>
     c ! 5 = Line [S ''err := c.cc.Invoke(ctx, "'', S ''/helloworld.Greeter/say_hello'',
                   S ''", in, out, opts...)''] \<and>
     r ! 6 = Line [S ''MethodName: '', S ''"say_hello"'', S '','']\<close>
  by (simp add: genHandlerBody_def genClientMethod_def genRegisterFunction_def gen_simps ex_simps)

end
